theory Spec2Isabelle
  imports Main
begin

section \<open>The launcher of openssh\_loee\<close>

text \<open>
  The package's \<^verbatim>\<open>__init__.py\<close> has three functions: \<^verbatim>\<open>_bin_dir\<close>,
  \<^verbatim>\<open>ssh_path\<close> and \<^verbatim>\<open>main\<close>. They read the module's \<^verbatim>\<open>__file__\<close> and
  \<^verbatim>\<open>sys.argv\<close>, ask the file system whether the binary is a regular file, print to
  \<^verbatim>\<open>sys.stderr\<close>, raise \<^verbatim>\<open>SystemExit\<close> and call \<^verbatim>\<open>os.execvp\<close>. Each of these
  effects is explicit here: a function of the source is a function from the state of the
  process to a result and the state afterwards.
\<close>

subsection \<open>Strings: the methods of \<^verbatim>\<open>str\<close> the code relies on\<close>

abbreviation sep :: char where
  "sep \<equiv> CHR ''/''"

abbreviation newline :: char where
  "newline \<equiv> CHR 0x0A"

text \<open>\<^verbatim>\<open>s.rfind(c)\<close>: the highest index of \<open>c\<close> in \<open>s\<close>, or \<open>-1\<close>.\<close>

definition rfind :: "string \<Rightarrow> char \<Rightarrow> int" where
  "rfind s c = int (length (dropWhile (\<lambda>x. x \<noteq> c) (rev s))) - 1"

text \<open>\<^verbatim>\<open>s.rstrip(c)\<close> for a single character \<open>c\<close>.\<close>

definition rstrip :: "string \<Rightarrow> char \<Rightarrow> string" where
  "rstrip s c = rev (dropWhile (\<lambda>x. x = c) (rev s))"

definition startswith :: "string \<Rightarrow> char \<Rightarrow> bool" where
  "startswith s c = (case s of [] \<Rightarrow> False | x # _ \<Rightarrow> x = c)"

definition endswith :: "string \<Rightarrow> char \<Rightarrow> bool" where
  "endswith s c = (case rev s of [] \<Rightarrow> False | x # _ \<Rightarrow> x = c)"

text \<open>\<^verbatim>\<open>s.split(c)\<close>: the fields between the occurrences of \<open>c\<close>; never an empty list.\<close>

fun split :: "string \<Rightarrow> char \<Rightarrow> string list" where
  "split [] c = [[]]"
| "split (x # xs) c =
     (if x = c then [] # split xs c
      else (x # hd (split xs c)) # tl (split xs c))"

subsection \<open>\<^verbatim>\<open>os.path\<close> on POSIX\<close>

text \<open>
  \<^verbatim>\<open>
  def dirname(p):
      i = p.rfind(sep) + 1
      head = p[:i]
      if head and head != sep*len(head):
          head = head.rstrip(sep)
      return head
  \<close>
\<close>

definition dirname :: "string \<Rightarrow> string" where
  "dirname p =
     (let i = rfind p sep + 1;
          head = take (nat i) p
      in if head \<noteq> [] \<and> head \<noteq> replicate (length head) sep
         then rstrip head sep else head)"

text \<open>
  \<^verbatim>\<open>os.path.join(a, b)\<close> with one component \<open>b\<close>:
  \<^verbatim>\<open>
      path = a
      if b.startswith(sep):              path = b
      elif not path or path.endswith(sep): path += b
      else:                              path += sep + b
      return path
  \<close>
\<close>

definition join :: "string \<Rightarrow> string \<Rightarrow> string" where
  "join a b =
     (if startswith b sep then b
      else if a = [] \<or> endswith a sep then a @ b
      else a @ [sep] @ b)"

text \<open>\<^verbatim>\<open>os.path.isabs(s)\<close> is \<^verbatim>\<open>s.startswith(sep)\<close>.\<close>

definition isabs :: "string \<Rightarrow> bool" where
  "isabs s = startswith s sep"

subsection \<open>The state of the process\<close>

datatype node = RegularFile | Directory | OtherNode

datatype os_error = ENOENT | ENOTDIR | EACCES | ENOEXEC | Errno nat

datatype exception = SystemExit int | OSError os_error | UnboundLocalError

text \<open>What a program started by \<^verbatim>\<open>execv\<close> is given: its file, its argument vector and
  the environment of the process it takes over.\<close>

record process_image =
  exe :: string
  argv :: "string list"
  env :: "string \<Rightarrow> string option"

text \<open>
  A call returns a value, raises an exception, or never comes back because the process
  now runs another program.
\<close>

datatype 'a result = Normal 'a | Raise exception | Superseded process_image

text \<open>
  A standard stream of the interpreter, \<^verbatim>\<open>sys.stdout\<close> or \<^verbatim>\<open>sys.stderr\<close>, as the
  interpreter sets it up from the file descriptors the process is started with. It is
  \<^verbatim>\<open>None\<close> when the process was started with that file descriptor closed. Otherwise it
  is a text stream with its way of buffering (\<^verbatim>\<open>sys.stderr\<close> is line-buffered,
  \<^verbatim>\<open>sys.stdout\<close> is line-buffered on a terminal and block-buffered elsewhere, both are
  unbuffered under \<^verbatim>\<open>python -u\<close>), and with the answer of the operating system to a write
  on its file descriptor: \<open>None\<close> when the text is taken, the error otherwise (a full
  device, a pipe whose reader is gone).
\<close>

datatype buffering = Unbuffered | LineBuffered | BlockBuffered

datatype stream = Absent | Attached buffering "os_error option"

definition accepts :: "stream \<Rightarrow> bool" where
  "accepts s = (case s of Attached _ None \<Rightarrow> True | _ \<Rightarrow> False)"

text \<open>A buffered stream keeps a text that the system refuses; an unbuffered one drops it.\<close>

definition holds_back :: "stream \<Rightarrow> bool" where
  "holds_back s = (case s of Attached b (Some _) \<Rightarrow> b \<noteq> Unbuffered | _ \<Rightarrow> False)"

text \<open>
  \<open>fs\<close> maps an absolute path to the kind of file \<^verbatim>\<open>os.stat\<close> finds there (symbolic
  links followed), \<open>kernel_exec\<close> is the answer of the operating system to a request to
  execute a file with an argument vector: \<open>None\<close> when the request is carried out,
  the error otherwise, whatever the system refuses for (no such file, no permission, not
  a program, a limit). \<open>exec_calls\<close> records every such request, carried out or not.
  \<open>stdout\<close> and \<open>stderr\<close> are what has arrived on the standard output and on the error
  stream, \<open>held_back\<close> records the texts that a stream keeps because the system has
  refused them.
\<close>

record world =
  module_file :: string
  sys_argv :: "string list"
  environ :: "string \<Rightarrow> string option"
  cwd :: string
  fs :: "string \<Rightarrow> node option"
  kernel_exec :: "string \<Rightarrow> string list \<Rightarrow> os_error option"
  sys_stdout :: stream
  sys_stderr :: stream
  stdin :: string
  stdout :: string
  stderr :: string
  exec_calls :: "(string \<times> string list) list"
  held_back :: "string list"

type_synonym 'a py = "world \<Rightarrow> 'a result \<times> world"

definition ret :: "'a \<Rightarrow> 'a py" where
  "ret x w = (Normal x, w)"

text \<open>One statement after another: an exception or a replaced process ends the sequence.\<close>

definition and_then :: "'a py \<Rightarrow> ('a \<Rightarrow> 'b py) \<Rightarrow> 'b py" where
  "and_then m k w =
     (case m w of
        (Normal x, w') \<Rightarrow> k x w'
      | (Raise e, w') \<Rightarrow> (Raise e, w')
      | (Superseded p, w') \<Rightarrow> (Superseded p, w'))"

subsection \<open>The library calls of \<^verbatim>\<open>main\<close>\<close>

text \<open>A relative path is looked up from the current working directory.\<close>

definition resolve :: "world \<Rightarrow> string \<Rightarrow> string" where
  "resolve w p = (if isabs p then p else join (cwd w) p)"

text \<open>
  \<^verbatim>\<open>
  def isfile(path):
      try:
          st = os.stat(path)
      except (OSError, ValueError):
          return False
      return stat.S_ISREG(st.st_mode)
  \<close>
\<close>

definition isfile :: "string \<Rightarrow> bool py" where
  "isfile path w =
     ret (case fs w (resolve w path) of
            None \<Rightarrow> False
          | Some n \<Rightarrow> n = RegularFile) w"

text \<open>
  A line of text written to a standard stream by \<^verbatim>\<open>print\<close>, with \<open>to_stderr\<close> telling
  which of the two it is. A text that the system takes arrives (from a block-buffered
  stream when the interpreter flushes it, at the end of the process at the latest). A text
  that the system refuses: an unbuffered stream raises \<^verbatim>\<open>OSError\<close>; a line-buffered
  stream raises \<^verbatim>\<open>OSError\<close> and keeps the text; a block-buffered stream keeps the text
  and the call returns, the refusal showing only when the interpreter flushes at its end.
\<close>

definition stream_write :: "bool \<Rightarrow> buffering \<Rightarrow> os_error option \<Rightarrow> string \<Rightarrow> unit py" where
  "stream_write to_stderr b answer t w =
     (case answer of
        None \<Rightarrow>
          (Normal (), if to_stderr then w\<lparr>stderr := stderr w @ t\<rparr>
                      else w\<lparr>stdout := stdout w @ t\<rparr>)
      | Some e \<Rightarrow>
          (case b of
             Unbuffered \<Rightarrow> (Raise (OSError e), w)
           | LineBuffered \<Rightarrow> (Raise (OSError e), w\<lparr>held_back := held_back w @ [t]\<rparr>)
           | BlockBuffered \<Rightarrow> (Normal (), w\<lparr>held_back := held_back w @ [t]\<rparr>)))"

text \<open>
  \<^verbatim>\<open>print(s, file=sys.stderr)\<close>. The built-in \<^verbatim>\<open>print\<close> takes \<^verbatim>\<open>sys.stdout\<close> for a
  \<^verbatim>\<open>file\<close> that is \<^verbatim>\<open>None\<close>, and does nothing when that is \<^verbatim>\<open>None\<close> too; it writes
  \<open>s\<close> and a newline.
\<close>

definition print_stderr :: "string \<Rightarrow> unit py" where
  "print_stderr s w =
     (case sys_stderr w of
        Attached b answer \<Rightarrow> stream_write True b answer (s @ [newline]) w
      | Absent \<Rightarrow>
          (case sys_stdout w of
             Attached b answer \<Rightarrow> stream_write False b answer (s @ [newline]) w
           | Absent \<Rightarrow> (Normal (), w)))"

definition sys_exit :: "int \<Rightarrow> unit py" where
  "sys_exit n w = (Raise (SystemExit n), w)"

text \<open>
  \<^verbatim>\<open>os.execv(path, args)\<close>: the process image is replaced, with the environment of the
  process, or the error of the operating system is raised as \<^verbatim>\<open>OSError\<close>.
\<close>

definition execv :: "string \<Rightarrow> string list \<Rightarrow> unit py" where
  "execv path args w =
     (let w' = w\<lparr>exec_calls := exec_calls w @ [(path, args)]\<rparr>
      in case kernel_exec w path args of
           None \<Rightarrow> (Superseded \<lparr>exe = path, argv = args, env = environ w\<rparr>, w')
         | Some e \<Rightarrow> (Raise (OSError e), w'))"

text \<open>
  \<^verbatim>\<open>os.get_exec_path()\<close>: \<^verbatim>\<open>PATH\<close> of the environment, or \<^verbatim>\<open>os.defpath\<close>, split at
  \<^verbatim>\<open>os.pathsep\<close>.
\<close>

definition get_exec_path :: "world \<Rightarrow> string list" where
  "get_exec_path w =
     split (case environ w ''PATH'' of None \<Rightarrow> ''/bin:/usr/bin'' | Some s \<Rightarrow> s) (CHR '':'')"

text \<open>
  The search loop of \<^verbatim>\<open>os._execvpe\<close>, for a file name without a directory part:
  \<^verbatim>\<open>
      for dir in path_list:
          fullname = path.join(dir, file)
          try:
              exec_func(fullname, *argrest)
          except (FileNotFoundError, NotADirectoryError) as e:
              last_exc = e
          except OSError as e:
              last_exc = e
              if saved_exc is None:
                  saved_exc = e
      if saved_exc is not None:
          raise saved_exc
      raise last_exc
  \<close>
\<close>

fun exec_search ::
  "string list \<Rightarrow> string \<Rightarrow> string list \<Rightarrow> exception option \<Rightarrow> exception option \<Rightarrow> unit py"
where
  "exec_search [] file args saved_exc last_exc w =
     (case saved_exc of
        Some e \<Rightarrow> (Raise e, w)
      | None \<Rightarrow> (case last_exc of Some e \<Rightarrow> (Raise e, w) | None \<Rightarrow> (Raise UnboundLocalError, w)))"
| "exec_search (d # ds) file args saved_exc last_exc w =
     (case execv (join d file) args w of
        (Raise (OSError e), w') \<Rightarrow>
          if e = ENOENT \<or> e = ENOTDIR
          then exec_search ds file args saved_exc (Some (OSError e)) w'
          else exec_search ds file args
                 (if saved_exc = None then Some (OSError e) else saved_exc) (Some (OSError e)) w'
      | (r, w') \<Rightarrow> (r, w'))"

text \<open>
  \<^verbatim>\<open>os.execvp(file, args)\<close> is \<^verbatim>\<open>_execvpe(file, args)\<close>:
  \<^verbatim>\<open>
      if path.dirname(file):
          exec_func(file, *argrest)
          return
      ... the search along PATH ...
  \<close>
\<close>

definition execvp :: "string \<Rightarrow> string list \<Rightarrow> unit py" where
  "execvp file args w =
     (if dirname file \<noteq> [] then execv file args w
      else exec_search (get_exec_path w) file args None None w)"

subsection \<open>The three functions of the package\<close>

text \<open>
  \<^verbatim>\<open>
  def _bin_dir():
      return os.path.join(os.path.dirname(__file__), "bin")
  \<close>
\<close>

definition bin_dir :: "string py" where
  "bin_dir w = ret (join (dirname (module_file w)) ''bin'') w"

text \<open>
  \<^verbatim>\<open>
  def ssh_path():
      return os.path.join(_bin_dir(), "ssh")
  \<close>
\<close>

definition ssh_path :: "string py" where
  "ssh_path = and_then bin_dir (\<lambda>d. ret (join d ''ssh''))"

text \<open>
  \<^verbatim>\<open>
  def main():
      binary = ssh_path()
      if not os.path.isfile(binary):
          print(f"Error: ssh binary not found at {binary}", file=sys.stderr)
          sys.exit(1)
      os.execvp(binary, [binary] + sys.argv[1:])
  \<close>
\<close>

definition main :: "unit py" where
  "main =
     and_then ssh_path (\<lambda>binary.
     and_then (isfile binary) (\<lambda>found.
     and_then (if \<not> found
               then and_then (print_stderr (''Error: ssh binary not found at '' @ binary))
                      (\<lambda>_. sys_exit 1)
               else ret ()) (\<lambda>_.
     and_then (\<lambda>w. ret (sys_argv w) w) (\<lambda>av.
     execvp binary ([binary] @ drop 1 av)))))"

text \<open>
  The exit status of a process that has started \<^verbatim>\<open>main\<close> in the state \<open>w\<^sub>0\<close> as its entry
  point, when \<^verbatim>\<open>main\<close> has ended with the result \<open>r\<close> in the state \<open>w\<close> and nothing
  catches the result. \<^verbatim>\<open>SystemExit(n)\<close> ends the process with status \<open>n\<close>, a normal return
  with 0, any other exception with 1, after the interpreter has written the traceback to
  \<^verbatim>\<open>sys.stderr\<close>. At its end the interpreter flushes the standard streams, and the status
  is 120 instead when a stream keeps a text it cannot deliver: one held back since \<open>w\<^sub>0\<close>,
  or the traceback on a buffered error stream that the system refuses. A replaced process
  has the status of the new program. (Text that the caller of \<^verbatim>\<open>main\<close> has left in a
  stream before \<open>w\<^sub>0\<close> is not looked at.)
\<close>

definition exit_status :: "world \<Rightarrow> 'a result \<times> world \<Rightarrow> int option" where
  "exit_status w\<^sub>0 rw =
     (case rw of (r, w) \<Rightarrow>
        (case r of
           Superseded _ \<Rightarrow> None
         | Normal _ \<Rightarrow> Some (if held_back w \<noteq> held_back w\<^sub>0 then 120 else 0)
         | Raise (SystemExit n) \<Rightarrow> Some (if held_back w \<noteq> held_back w\<^sub>0 then 120 else n)
         | Raise _ \<Rightarrow>
             Some (if held_back w \<noteq> held_back w\<^sub>0 \<or> holds_back (sys_stderr w)
                   then 120 else 1)))"

subsection \<open>Notions the properties are stated with\<close>

text \<open>The names a path leads through: its fields between separators, empty ones dropped.\<close>

definition path_parts :: "string \<Rightarrow> string list" where
  "path_parts p = filter (\<lambda>s. s \<noteq> []) (split p sep)"

text \<open>
  Concrete states of a process, to evaluate the functions at: the package installed at
  \<^verbatim>\<open>/opt/tool\<close> with its binary, the same package without the binary, with a binary
  the system refuses to execute, with a file that is not a program, and with a directory
  in the place of the binary; a package in \<^verbatim>\<open>site-packages\<close>; a package whose location
  is relative; a call with arguments a shell would interpret; the package without its
  binary and with an error stream on a full device, on a pipe without a reader, or closed;
  and a package in a directory with a newline in its name.
\<close>

definition installed :: world where
  "installed =
     \<lparr>module_file = ''/opt/tool/__init__.py'',
      sys_argv = [''ssh-loee'', ''user@host'', ''-p'', ''2222''],
      environ = [''PATH'' \<mapsto> ''/usr/local/bin:/usr/bin:/bin''],
      cwd = ''/home/user'',
      fs = [''/opt/tool'' \<mapsto> Directory, ''/opt/tool/bin'' \<mapsto> Directory,
            ''/opt/tool/bin/ssh'' \<mapsto> RegularFile],
      kernel_exec = (\<lambda>path args. if path = ''/opt/tool/bin/ssh'' then None else Some ENOENT),
      sys_stdout = Attached LineBuffered None, sys_stderr = Attached LineBuffered None,
      stdin = [], stdout = [], stderr = [], exec_calls = [], held_back = []\<rparr>"

definition not_installed :: world where
  "not_installed =
     installed\<lparr>fs := [''/opt/tool'' \<mapsto> Directory],
               kernel_exec := (\<lambda>path args. Some ENOENT)\<rparr>"

definition not_executable :: world where
  "not_executable =
     installed\<lparr>kernel_exec := (\<lambda>path args. Some (if path = ''/opt/tool/bin/ssh'' then EACCES else ENOENT))\<rparr>"


definition site_packages :: world where
  "site_packages =
     \<lparr>module_file = ''/usr/lib/python3/site-packages/openssh_loee/__init__.py'',
      sys_argv = [''/usr/bin/ssh-loee'', ''-A'', ''git@example.org''],
      environ = [''HOME'' \<mapsto> ''/root''],
      cwd = ''/root'',
      fs = [''/usr/lib/python3/site-packages/openssh_loee/bin/ssh'' \<mapsto> RegularFile],
      kernel_exec = (\<lambda>path args. Some EACCES),
      sys_stdout = Attached LineBuffered None, sys_stderr = Attached LineBuffered None,
      stdin = [], stdout = ''ready'', stderr = ''warning'', exec_calls = [],
      held_back = []\<rparr>"

definition ssh_is_directory :: world where
  "ssh_is_directory =
     installed\<lparr>fs := [''/opt/tool'' \<mapsto> Directory, ''/opt/tool/bin'' \<mapsto> Directory,
                      ''/opt/tool/bin/ssh'' \<mapsto> Directory],
               stderr := ''starting'' @ [newline]\<rparr>"

definition relative_package :: world where
  "relative_package =
     \<lparr>module_file = ''pkg/__init__.py'',
      sys_argv = [''launcher''],
      environ = [''PATH'' \<mapsto> ''/bin''],
      cwd = ''/srv/app'',
      fs = [''/srv/app/pkg'' \<mapsto> Directory, ''/bin/ssh'' \<mapsto> RegularFile],
      kernel_exec = (\<lambda>path args. if path = ''/bin/ssh'' then None else Some ENOENT),
      sys_stdout = Attached LineBuffered None, sys_stderr = Attached LineBuffered None,
      stdin = ''input'', stdout = ''output'', stderr = [], exec_calls = [],
      held_back = []\<rparr>"

definition quoting :: world where
  "quoting =
     installed\<lparr>sys_argv := [''ssh-loee'', ''a b'', ''$(reboot)'', ''*; echo'', [], ''-o'']\<rparr>"

definition stderr_full :: world where
  "stderr_full = not_installed\<lparr>sys_stderr := Attached LineBuffered (Some (Errno 28))\<rparr>"

definition stderr_broken_pipe :: world where
  "stderr_broken_pipe = not_installed\<lparr>sys_stderr := Attached LineBuffered (Some (Errno 32))\<rparr>"

definition stderr_closed :: world where
  "stderr_closed = not_installed\<lparr>sys_stderr := Absent\<rparr>"

definition newline_in_path :: world where
  "newline_in_path =
     \<lparr>module_file = ''/opt/a'' @ [newline] @ ''b/__init__.py'',
      sys_argv = [''ssh-loee''],
      environ = Map.empty,
      cwd = ''/'',
      fs = Map.empty,
      kernel_exec = (\<lambda>path args. Some ENOENT),
      sys_stdout = Attached LineBuffered None, sys_stderr = Attached LineBuffered None,
      stdin = [], stdout = [], stderr = [], exec_calls = [], held_back = []\<rparr>"

section \<open>Properties\<close>

subsection \<open>Paths\<close>

lemma ssh_path_value:
  "ssh_path w = (Normal (join (join (dirname (module_file w)) ''bin'') ''ssh''), w)"
  by (simp add: ssh_path_def bin_dir_def and_then_def ret_def)

lemma endswith_iff: "endswith s c \<longleftrightarrow> s \<noteq> [] \<and> last s = c"
  by (cases s rule: rev_cases) (simp_all add: endswith_def)

lemma join_bin: "join P ''bin'' = (if P = [] \<or> last P = sep then P @ ''bin'' else P @ ''/bin'')"
  by (simp add: join_def startswith_def endswith_iff)

lemma join_bin_ssh: "join (join P ''bin'') ''ssh'' = join P ''bin'' @ ''/ssh''"
  by (simp add: join_bin) (simp add: join_def startswith_def endswith_iff)

lemma join_closed:
  "join (join P ''bin'') ''ssh'' =
     (if P = [] \<or> last P = sep then P @ ''bin/ssh'' else P @ ''/bin/ssh'')"
  using join_bin_ssh [of P] join_bin [of P] by simp

lemma dirname_bin_ssh: "dirname (y @ ''bin/ssh'') = y @ ''bin''"
proof -
  have r: "rfind (y @ ''bin/ssh'') sep = int (length y) + 3"
    by (simp add: rfind_def)
  have t: "take (nat (int (length y) + 3 + 1)) (y @ ''bin/ssh'') = y @ ''bin/''"
    by (simp add: nat_add_distrib)
  have n: "y @ ''bin/'' \<noteq> replicate (length (y @ ''bin/'')) sep"
  proof
    assume "y @ ''bin/'' = replicate (length (y @ ''bin/'')) sep"
    then have "set (y @ ''bin/'') \<subseteq> {sep}"
      by (metis set_replicate_conv_if empty_subsetI subset_refl)
    then show False by simp
  qed
  have s: "rstrip (y @ ''bin/'') sep = y @ ''bin''"
    by (simp add: rstrip_def)
  show ?thesis
    unfolding dirname_def Let_def r t using n s by simp
qed

lemma join_bin_ends: "\<exists>y. join P ''bin'' = y @ ''bin''"
  by (simp add: join_bin)

lemma dirname_ssh_path: "dirname (join (join P ''bin'') ''ssh'') = join P ''bin''"
proof -
  obtain y where y: "join P ''bin'' = y @ ''bin''" using join_bin_ends by blast
  have "join (join P ''bin'') ''ssh'' = y @ ''bin/ssh''"
    using join_bin_ssh [of P] y by simp
  then show ?thesis using y dirname_bin_ssh [of y] by simp
qed

lemma join_bin_nonempty: "join P ''bin'' \<noteq> []"
  by (simp add: join_bin)

lemma execvp_binary:
  "execvp (join (join P ''bin'') ''ssh'') args w = execv (join (join P ''bin'') ''ssh'') args w"
  by (simp add: execvp_def dirname_ssh_path join_bin_nonempty)

lemma main_unfold:
  "main w =
     (let b = join (join (dirname (module_file w)) ''bin'') ''ssh'' in
      if fst (isfile b w) = Normal True
      then execv b (b # drop 1 (sys_argv w)) w
      else and_then (print_stderr (''Error: ssh binary not found at '' @ b))
             (\<lambda>_. sys_exit 1) w)"
  by (simp add: main_def and_then_def ssh_path_value isfile_def ret_def sys_exit_def
      execvp_binary Let_def split: prod.splits result.splits)

lemma split_nonempty: "split s c \<noteq> []"
  by (induction s) auto

lemma split_append: "split (a @ c # b) c = split a c @ split b c"
  by (induction a) (auto simp: split_nonempty)

lemma path_parts_append: "path_parts (a @ sep # b) = path_parts a @ path_parts b"
  by (simp add: path_parts_def split_append)

lemma path_parts_bin_ssh: "path_parts ''bin/ssh'' = [''bin'', ''ssh'']"
  by (simp add: path_parts_def)

lemma path_parts_ssh_path:
  "path_parts (join (join P ''bin'') ''ssh'') = path_parts P @ [''bin'', ''ssh'']"
proof (cases "P = []")
  case True
  then show ?thesis by (simp add: join_closed path_parts_def)
next
  case False
  show ?thesis
  proof (cases "last P = sep")
    case True
    with False obtain Q where Q: "P = Q @ [sep]"
      by (metis append_butlast_last_id)
    have "join (join P ''bin'') ''ssh'' = Q @ sep # ''bin/ssh''"
      using Q by (simp add: join_closed)
    moreover have "path_parts P = path_parts Q"
      using Q path_parts_append [of Q "[]"] by (simp add: path_parts_def)
    ultimately show ?thesis
      by (simp add: path_parts_append path_parts_bin_ssh)
  next
    case False
    with \<open>P \<noteq> []\<close> have "join (join P ''bin'') ''ssh'' = P @ sep # ''bin/ssh''"
      by (simp add: join_closed)
    then show ?thesis
      by (simp add: path_parts_append path_parts_bin_ssh)
  qed
qed

lemma isabs_ssh_path: "isabs (join (join P ''bin'') ''ssh'') = isabs P"
  by (cases P) (simp_all add: join_closed isabs_def startswith_def)

lemma ssh_path_plain:
  "P \<noteq> [] \<Longrightarrow> last P \<noteq> sep \<Longrightarrow> join (join P ''bin'') ''ssh'' = P @ ''/bin/ssh''"
  by (simp add: join_closed)

subsection \<open>The two branches of \<^verbatim>\<open>main\<close>\<close>

lemma main_missing_print:
  assumes "fst (ssh_path w) = Normal b" and "fst (isfile b w) = Normal False"
  shows "main w =
           and_then (print_stderr (''Error: ssh binary not found at '' @ b)) (\<lambda>_. sys_exit 1) w"
  using assms by (simp add: main_unfold ssh_path_value Let_def)

lemma main_missing:
  assumes "fst (ssh_path w) = Normal b" and "fst (isfile b w) = Normal False"
    and "accepts (sys_stderr w)"
  shows "main w = (Raise (SystemExit 1),
                   w\<lparr>stderr := stderr w @ ''Error: ssh binary not found at '' @ b @ [newline]\<rparr>)"
  using assms(3) main_missing_print [OF assms(1,2)]
  by (auto simp: and_then_def print_stderr_def stream_write_def sys_exit_def accepts_def
      split: stream.splits option.splits)

lemma main_missing_refused:
  assumes "fst (ssh_path w) = Normal b" and "fst (isfile b w) = Normal False"
    and "sys_stderr w = Attached LineBuffered (Some e)"
  shows "main w = (Raise (OSError e),
                   w\<lparr>held_back := held_back w
                        @ [''Error: ssh binary not found at '' @ b @ [newline]]\<rparr>)"
  using assms(3) main_missing_print [OF assms(1,2)]
  by (auto simp: and_then_def print_stderr_def stream_write_def sys_exit_def accepts_def
      split: stream.splits option.splits)

lemma main_missing_closed:
  assumes "fst (ssh_path w) = Normal b" and "fst (isfile b w) = Normal False"
    and "sys_stderr w = Absent" and "accepts (sys_stdout w)"
  shows "main w = (Raise (SystemExit 1),
                   w\<lparr>stdout := stdout w @ ''Error: ssh binary not found at '' @ b @ [newline]\<rparr>)"
  using assms(3,4) main_missing_print [OF assms(1,2)]
  by (auto simp: and_then_def print_stderr_def stream_write_def sys_exit_def accepts_def
      split: stream.splits option.splits)

lemma print_stderr_result:
  "(\<exists>w'. print_stderr s w = (Normal (), w')) \<or> (\<exists>e w'. print_stderr s w = (Raise (OSError e), w'))"
  by (simp add: print_stderr_def stream_write_def
      split: stream.splits option.splits buffering.splits)

lemma print_stderr_frame:
  "fs (snd (print_stderr s w)) = fs w
   \<and> environ (snd (print_stderr s w)) = environ w
   \<and> cwd (snd (print_stderr s w)) = cwd w
   \<and> stdin (snd (print_stderr s w)) = stdin w
   \<and> exec_calls (snd (print_stderr s w)) = exec_calls w
   \<and> sys_stderr (snd (print_stderr s w)) = sys_stderr w"
  by (simp add: print_stderr_def stream_write_def
      split: stream.splits option.splits buffering.splits)

lemma and_then_exit:
  "and_then (print_stderr s) (\<lambda>_. sys_exit n) w =
     (case fst (print_stderr s w) of
        Normal _ \<Rightarrow> Raise (SystemExit n)
      | Raise e \<Rightarrow> Raise e
      | Superseded p \<Rightarrow> Superseded p,
      snd (print_stderr s w))"
  by (simp add: and_then_def sys_exit_def split: prod.splits result.splits)

lemma main_present:
  assumes "fst (ssh_path w) = Normal b" and "fst (isfile b w) = Normal True"
  shows "main w = execv b (b # drop 1 (sys_argv w)) w"
  using assms by (simp add: main_unfold ssh_path_value Let_def)

lemma isfile_bool: "fst (isfile b w) = Normal True \<or> fst (isfile b w) = Normal False"
  by (simp add: isfile_def ret_def)

lemma execv_frame:
  "snd (execv p a w) = w\<lparr>exec_calls := exec_calls w @ [(p, a)]\<rparr>"
  by (simp add: execv_def Let_def split: option.splits)

lemma execv_ok:
  "kernel_exec w p a = None \<Longrightarrow>
   fst (execv p a w) = Superseded \<lparr>exe = p, argv = a, env = environ w\<rparr>"
  by (simp add: execv_def Let_def)

lemma execv_fails:
  "kernel_exec w p a = Some e \<Longrightarrow> fst (execv p a w) = Raise (OSError e)"
  by (simp add: execv_def Let_def)

lemma execv_cases:
  "fst (execv p a w) =
     (case kernel_exec w p a of
        None \<Rightarrow> Superseded \<lparr>exe = p, argv = a, env = environ w\<rparr>
      | Some e \<Rightarrow> Raise (OSError e))"
  by (simp add: execv_def Let_def split: option.splits)

lemma exit_status_execv:
  "exit_status w (execv p a w) =
     (case kernel_exec w p a of
        None \<Rightarrow> None
      | Some e \<Rightarrow> Some (if holds_back (sys_stderr w) then 120 else 1))"
  by (simp add: execv_def exit_status_def Let_def split: option.splits)

lemmas path_eval = ssh_path_value dirname_def rfind_def rstrip_def join_def
  startswith_def endswith_def

lemmas isfile_eval = isfile_def ret_def resolve_def isabs_def startswith_def join_def
  endswith_def

subsection \<open>A present binary: the process is replaced\<close>

text \<open>
  Claim C1, as amended. Whenever the computed binary path is a regular file and the
  operating system carries out the request to execute it, \<^verbatim>\<open>main\<close> replaces the process
  image with that binary: the new program is given the argument vector made of the binary
  path followed by exactly \<^verbatim>\<open>sys.argv[1:]\<close>, and the environment of the process, and the
  environment and the three standard streams are left as they were.
\<close>

theorem main_replaces_process:
  assumes "fst (ssh_path w) = Normal binary" and "fst (isfile binary w) = Normal True"
    and "kernel_exec w binary (binary # drop 1 (sys_argv w)) = None"
  shows "fst (main w) = Superseded \<lparr>exe = binary, argv = binary # drop 1 (sys_argv w), env = environ w\<rparr>
       \<and> environ (snd (main w)) = environ w
       \<and> stdin (snd (main w)) = stdin w
       \<and> stdout (snd (main w)) = stdout w
       \<and> stderr (snd (main w)) = stderr w"
  using main_present [OF assms(1,2)] execv_ok [OF assms(3)]
  by (simp add: execv_frame)

text \<open>
  The package at \<^verbatim>\<open>/opt/tool\<close>, called with \<^verbatim>\<open>user@host -p 2222\<close>: the new program
  receives \<^verbatim>\<open>/opt/tool/bin/ssh user@host -p 2222\<close>.
\<close>

theorem main_replaces_process_witness:
  "fst (ssh_path installed) = Normal ''/opt/tool/bin/ssh''
   \<and> fst (isfile ''/opt/tool/bin/ssh'' installed) = Normal True
   \<and> drop 1 (sys_argv installed) = [''user@host'', ''-p'', ''2222'']
   \<and> fst (main installed) =
       Superseded \<lparr>exe = ''/opt/tool/bin/ssh'',
                   argv = [''/opt/tool/bin/ssh'', ''user@host'', ''-p'', ''2222''],
                   env = environ installed\<rparr>
   \<and> stderr (snd (main installed)) = []"
proof -
  have p: "fst (ssh_path installed) = Normal ''/opt/tool/bin/ssh''"
    by (simp add: installed_def path_eval)
  have f: "fst (isfile ''/opt/tool/bin/ssh'' installed) = Normal True"
    by (simp add: installed_def isfile_eval)
  have a: "drop 1 (sys_argv installed) = [''user@host'', ''-p'', ''2222'']"
    by (simp add: installed_def)
  have k: "kernel_exec installed ''/opt/tool/bin/ssh''
             (''/opt/tool/bin/ssh'' # drop 1 (sys_argv installed)) = None"
    by (simp add: installed_def)
  have e: "stderr installed = []"
    by (simp add: installed_def)
  show ?thesis
    using p f a e main_replaces_process [OF p f k] by simp
qed

text \<open>
  Claim C1 as it is written asks for the replacement at every regular file. With the same
  package and arguments, and a regular file that the system refuses to execute,
  \<^verbatim>\<open>os.execvp\<close> raises and no program replaces the process.
\<close>

theorem main_replaces_process_counterexample:
  "fst (ssh_path not_executable) = Normal ''/opt/tool/bin/ssh''
   \<and> fst (isfile ''/opt/tool/bin/ssh'' not_executable) = Normal True
   \<and> drop 1 (sys_argv not_executable) = [''user@host'', ''-p'', ''2222'']
   \<and> fst (main not_executable) = Raise (OSError EACCES)
   \<and> fst (main not_executable) \<noteq>
       Superseded \<lparr>exe = ''/opt/tool/bin/ssh'',
                   argv = [''/opt/tool/bin/ssh'', ''user@host'', ''-p'', ''2222''],
                   env = environ not_executable\<rparr>"
proof -
  have p: "fst (ssh_path not_executable) = Normal ''/opt/tool/bin/ssh''"
    by (simp add: not_executable_def installed_def path_eval)
  have f: "fst (isfile ''/opt/tool/bin/ssh'' not_executable) = Normal True"
    by (simp add: not_executable_def installed_def isfile_eval)
  have a: "drop 1 (sys_argv not_executable) = [''user@host'', ''-p'', ''2222'']"
    by (simp add: not_executable_def installed_def)
  have k: "kernel_exec not_executable ''/opt/tool/bin/ssh''
             (''/opt/tool/bin/ssh'' # drop 1 (sys_argv not_executable)) = Some EACCES"
    by (simp add: not_executable_def installed_def)
  show ?thesis
    using p f a main_present [OF p f] execv_fails [OF k] by simp
qed

subsection \<open>A missing binary: diagnostic and exit status 1\<close>

text \<open>
  Claim C2, as amended. Whenever the computed binary path is not a regular file and the
  error stream is attached and accepts the write, \<^verbatim>\<open>main\<close> ends with \<^verbatim>\<open>SystemExit(1)\<close>, so
  the process exits with status 1, and what it has written to the error stream is a
  message that is not empty and contains the computed path. Whatever the streams do, for a
  missing binary \<^verbatim>\<open>main\<close> makes no request to replace the process, and the process is not
  replaced.
\<close>

theorem main_missing_binary_exits:
  assumes "fst (ssh_path w) = Normal binary" and "fst (isfile binary w) = Normal False"
  shows "(accepts (sys_stderr w) \<longrightarrow>
            fst (main w) = Raise (SystemExit 1)
          \<and> exit_status w (main w) = Some 1
          \<and> (\<exists>msg. stderr (snd (main w)) = stderr w @ msg \<and> msg \<noteq> []
                   \<and> (\<exists>pre suf. msg = pre @ binary @ suf)))
       \<and> exec_calls (snd (main w)) = exec_calls w
       \<and> (\<forall>img. fst (main w) \<noteq> Superseded img)"
proof -
  let ?line = "''Error: ssh binary not found at '' @ binary"
  let ?msg = "?line @ [newline]"
  have p: "main w = and_then (print_stderr ?line) (\<lambda>_. sys_exit 1) w"
    using main_missing_print [OF assms] .
  have calls: "exec_calls (snd (main w)) = exec_calls w"
    using print_stderr_frame [of ?line w] by (simp add: p and_then_exit)
  have never: "\<forall>img. fst (main w) \<noteq> Superseded img"
    using print_stderr_result [of ?line w] by (auto simp: p and_then_exit)
  have written: "accepts (sys_stderr w) \<longrightarrow>
            fst (main w) = Raise (SystemExit 1)
          \<and> exit_status w (main w) = Some 1
          \<and> (\<exists>msg. stderr (snd (main w)) = stderr w @ msg \<and> msg \<noteq> []
                   \<and> (\<exists>pre suf. msg = pre @ binary @ suf))"
  proof
    assume a: "accepts (sys_stderr w)"
    have m: "main w = (Raise (SystemExit 1), w\<lparr>stderr := stderr w @ ?msg\<rparr>)"
      using main_missing [OF assms a] by simp
    have "?msg = ''Error: ssh binary not found at '' @ binary @ [newline]" by simp
    then have "\<exists>pre suf. ?msg = pre @ binary @ suf" by blast
    then have "\<exists>msg. stderr (snd (main w)) = stderr w @ msg \<and> msg \<noteq> []
                  \<and> (\<exists>pre suf. msg = pre @ binary @ suf)"
      using m by (intro exI [of _ ?msg]) simp
    then show "fst (main w) = Raise (SystemExit 1)
          \<and> exit_status w (main w) = Some 1
          \<and> (\<exists>msg. stderr (snd (main w)) = stderr w @ msg \<and> msg \<noteq> []
                   \<and> (\<exists>pre suf. msg = pre @ binary @ suf))"
      using m by (simp add: exit_status_def)
  qed
  show ?thesis using written calls never by blast
qed

text \<open>The package at \<^verbatim>\<open>/opt/tool\<close> without its binary.\<close>

theorem main_missing_binary_exits_witness:
  "fst (ssh_path not_installed) = Normal ''/opt/tool/bin/ssh''
   \<and> fst (isfile ''/opt/tool/bin/ssh'' not_installed) = Normal False
   \<and> accepts (sys_stderr not_installed)
   \<and> fst (main not_installed) = Raise (SystemExit 1)
   \<and> exit_status not_installed (main not_installed) = Some 1
   \<and> stderr (snd (main not_installed))
       = ''Error: ssh binary not found at /opt/tool/bin/ssh'' @ [newline]
   \<and> exec_calls (snd (main not_installed)) = []"
proof -
  have p: "fst (ssh_path not_installed) = Normal ''/opt/tool/bin/ssh''"
    by (simp add: not_installed_def installed_def path_eval)
  have f: "fst (isfile ''/opt/tool/bin/ssh'' not_installed) = Normal False"
    by (simp add: not_installed_def installed_def isfile_eval)
  have a: "accepts (sys_stderr not_installed)"
    by (simp add: accepts_def not_installed_def installed_def)
  have e: "stderr not_installed = [] \<and> exec_calls not_installed = []"
    by (simp add: not_installed_def installed_def)
  show ?thesis
    using p f a e main_missing_binary_exits [OF p f] main_missing [OF p f a] by simp
qed

text \<open>
  Claim C2 as it is written asks for the diagnostic and the exit status 1 at every missing
  binary. With the error stream on a full device the write is refused: \<^verbatim>\<open>print\<close> raises
  \<^verbatim>\<open>OSError\<close>, \<^verbatim>\<open>sys.exit(1)\<close> is never reached, nothing arrives on the error stream, and
  the process ends with status 120.
\<close>

theorem main_missing_binary_exits_counterexample:
  "fst (ssh_path stderr_full) = Normal ''/opt/tool/bin/ssh''
   \<and> fst (isfile ''/opt/tool/bin/ssh'' stderr_full) = Normal False
   \<and> fst (main stderr_full) = Raise (OSError (Errno 28))
   \<and> fst (main stderr_full) \<noteq> Raise (SystemExit 1)
   \<and> stderr (snd (main stderr_full)) = stderr stderr_full
   \<and> exit_status stderr_full (main stderr_full) = Some 120"
proof -
  have p: "fst (ssh_path stderr_full) = Normal ''/opt/tool/bin/ssh''"
    by (simp add: stderr_full_def not_installed_def installed_def path_eval)
  have f: "fst (isfile ''/opt/tool/bin/ssh'' stderr_full) = Normal False"
    by (simp add: stderr_full_def not_installed_def installed_def isfile_eval)
  have a: "sys_stderr stderr_full = Attached LineBuffered (Some (Errno 28))"
    by (simp add: stderr_full_def)
  show ?thesis
    using p f main_missing_refused [OF p f a] by (simp add: exit_status_def)
qed

subsection \<open>The binary path\<close>

text \<open>
  Claim C3. For the package location \<open>P\<close> (the directory of \<^verbatim>\<open>__file__\<close>),
  \<^verbatim>\<open>ssh_path\<close> returns the path \<open>P/bin/ssh\<close>: it leads through the names of \<open>P\<close>, then
  \<^verbatim>\<open>bin\<close>, then \<^verbatim>\<open>ssh\<close>, it is absolute exactly when \<open>P\<close> is, and it is the string
  \<open>P\<close> followed by \<^verbatim>\<open>/bin/ssh\<close> for every \<open>P\<close> that is not empty and does not end in a
  separator. The call always returns a value, leaves the state of the process as it was,
  and its value does not depend on the working directory, on the arguments or on the
  file system.
\<close>

theorem ssh_path_is_package_bin_ssh:
  assumes "dirname (module_file w) = P"
  shows "\<exists>p. ssh_path w = (Normal p, w)
           \<and> path_parts p = path_parts P @ [''bin'', ''ssh'']
           \<and> isabs p = isabs P
           \<and> (P \<noteq> [] \<and> last P \<noteq> sep \<longrightarrow> p = P @ ''/bin/ssh'')
           \<and> (\<forall>c a f. fst (ssh_path (w\<lparr>cwd := c, sys_argv := a, fs := f\<rparr>)) = Normal p)"
  using assms
  by (simp add: ssh_path_value path_parts_ssh_path isabs_ssh_path ssh_path_plain)

text \<open>The package at \<^verbatim>\<open>/opt/tool\<close>, also from another directory, without arguments and
  on an empty file system.\<close>

theorem ssh_path_is_package_bin_ssh_witness:
  "dirname (module_file installed) = ''/opt/tool''
   \<and> ssh_path installed = (Normal ''/opt/tool/bin/ssh'', installed)
   \<and> fst (ssh_path (installed\<lparr>cwd := ''/'', sys_argv := [], fs := Map.empty\<rparr>))
       = Normal ''/opt/tool/bin/ssh''"
proof -
  have d: "dirname (module_file installed) = ''/opt/tool''"
    by (simp add: installed_def dirname_def rfind_def rstrip_def)
  show ?thesis
    using d ssh_path_is_package_bin_ssh [OF d] by auto
qed

subsection \<open>The forwarded arguments\<close>

text \<open>
  Claim C4. Whenever the binary is a regular file, the one request \<^verbatim>\<open>main\<close> makes to
  replace the process carries the argument vector made of the binary path followed by
  \<^verbatim>\<open>sys.argv[1:]\<close> itself: the same strings, as many, in the same order, whatever
  characters they contain. A program that replaces the process has received exactly this
  vector.
\<close>

theorem forwarded_arguments:
  assumes "fst (ssh_path w) = Normal binary" and "fst (isfile binary w) = Normal True"
  shows "exec_calls (snd (main w)) = exec_calls w @ [(binary, binary # drop 1 (sys_argv w))]
       \<and> (\<forall>img. fst (main w) = Superseded img \<longrightarrow>
             hd (argv img) = binary
           \<and> tl (argv img) = drop 1 (sys_argv w)
           \<and> length (tl (argv img)) = length (sys_argv w) - 1
           \<and> (\<forall>i < length (sys_argv w) - 1. tl (argv img) ! i = sys_argv w ! Suc i))"
  using main_present [OF assms]
  by (auto simp: execv_frame execv_cases split: option.splits)

text \<open>Arguments with a blank, with shell metacharacters, and an empty one.\<close>

theorem forwarded_arguments_witness:
  "fst (ssh_path quoting) = Normal ''/opt/tool/bin/ssh''
   \<and> fst (isfile ''/opt/tool/bin/ssh'' quoting) = Normal True
   \<and> drop 1 (sys_argv quoting) = [''a b'', ''$(reboot)'', ''*; echo'', [], ''-o'']
   \<and> exec_calls (snd (main quoting)) =
       [(''/opt/tool/bin/ssh'',
         [''/opt/tool/bin/ssh'', ''a b'', ''$(reboot)'', ''*; echo'', [], ''-o''])]"
proof -
  have p: "fst (ssh_path quoting) = Normal ''/opt/tool/bin/ssh''"
    by (simp add: quoting_def installed_def path_eval)
  have f: "fst (isfile ''/opt/tool/bin/ssh'' quoting) = Normal True"
    by (simp add: quoting_def installed_def isfile_eval)
  have a: "drop 1 (sys_argv quoting) = [''a b'', ''$(reboot)'', ''*; echo'', [], ''-o'']
           \<and> exec_calls quoting = []"
    by (simp add: quoting_def installed_def)
  show ?thesis
    using p f a forwarded_arguments [OF p f] by simp
qed

subsection \<open>The failures of the launcher\<close>




subsection \<open>No return\<close>

text \<open>
  Claim C6. \<^verbatim>\<open>main\<close> never returns a value to its caller: on every invocation either a
  program replaces the process, or \<^verbatim>\<open>main\<close> ends with an exception that ends the process
  with an exit status that is not zero: 1, or 120 when a standard stream has refused a
  write; it is 1 whenever the error stream accepts what is written to it.
\<close>

theorem main_never_returns:
  "(\<forall>x. fst (main w) \<noteq> Normal x)
   \<and> ((\<exists>img. fst (main w) = Superseded img)
      \<or> (\<exists>e n. fst (main w) = Raise e \<and> exit_status w (main w) = Some n \<and> n \<noteq> 0
             \<and> (n = 1 \<or> n = 120)
             \<and> (accepts (sys_stderr w) \<longrightarrow> n = 1)))"
proof -
  obtain b where b: "fst (ssh_path w) = Normal b"
    by (simp add: ssh_path_value)
  show ?thesis
  proof (cases "fst (isfile b w) = Normal True")
    case True
    show ?thesis
      using main_present [OF b True]
      by (auto simp: execv_def exit_status_def holds_back_def accepts_def Let_def
          split: option.splits stream.splits)
  next
    case False
    then have f: "fst (isfile b w) = Normal False"
      using isfile_bool [of b w] by simp
    show ?thesis
      using main_missing_print [OF b f]
      by (auto simp: and_then_def sys_exit_def print_stderr_def stream_write_def
          exit_status_def holds_back_def accepts_def
          split: stream.splits option.splits buffering.splits)
  qed
qed

text \<open>The package without its binary, and with it.\<close>

theorem main_never_returns_witness:
  "fst (main not_installed) \<noteq> Normal ()
   \<and> exit_status not_installed (main not_installed) = Some 1
   \<and> fst (main installed) \<noteq> Normal ()
   \<and> exit_status installed (main installed) = None"
proof -
  have p: "fst (ssh_path not_installed) = Normal ''/opt/tool/bin/ssh''"
    by (simp add: not_installed_def installed_def path_eval)
  have f: "fst (isfile ''/opt/tool/bin/ssh'' not_installed) = Normal False"
    by (simp add: not_installed_def installed_def isfile_eval)
  have a: "accepts (sys_stderr not_installed)"
    by (simp add: accepts_def not_installed_def installed_def)
  have q: "fst (ssh_path installed) = Normal ''/opt/tool/bin/ssh''"
    by (simp add: installed_def path_eval)
  have g: "fst (isfile ''/opt/tool/bin/ssh'' installed) = Normal True"
    by (simp add: installed_def isfile_eval)
  have k: "kernel_exec installed ''/opt/tool/bin/ssh''
             (''/opt/tool/bin/ssh'' # drop 1 (sys_argv installed)) = None"
    by (simp add: installed_def)
  have i: "exit_status installed (main installed) = None"
    using main_present [OF q g] k by (simp add: exit_status_execv)
  have n: "exit_status not_installed (main not_installed) = Some 1"
    using main_missing [OF p f a] by (simp add: exit_status_def)
  show ?thesis
    using i n main_never_returns [of not_installed] main_never_returns [of installed]
    by simp
qed

subsection \<open>Determinism of the binary path\<close>

text \<open>
  Claim C7. Two evaluations of \<^verbatim>\<open>ssh_path\<close> under the same \<^verbatim>\<open>__file__\<close> give the same
  path, whatever else differs between the two states; an evaluation changes nothing, so
  that two evaluations in a row agree.
\<close>

theorem ssh_path_deterministic:
  assumes "module_file w1 = module_file w2"
  shows "fst (ssh_path w1) = fst (ssh_path w2)
       \<and> snd (ssh_path w1) = w1
       \<and> and_then ssh_path (\<lambda>p. and_then ssh_path (\<lambda>q. ret (p = q))) w1 = (Normal True, w1)"
  using assms by (simp add: ssh_path_value and_then_def ret_def)

text \<open>Two states with the same package location and different file systems.\<close>

theorem ssh_path_deterministic_witness:
  "module_file installed = module_file not_installed
   \<and> fs installed \<noteq> fs not_installed
   \<and> fst (ssh_path installed) = fst (ssh_path not_installed)
   \<and> fst (ssh_path installed) = Normal ''/opt/tool/bin/ssh''"
proof -
  have m: "module_file installed = module_file not_installed"
    by (simp add: not_installed_def)
  have "fs installed ''/opt/tool/bin/ssh'' \<noteq> fs not_installed ''/opt/tool/bin/ssh''"
    by (simp add: not_installed_def installed_def)
  then have d: "fs installed \<noteq> fs not_installed" by metis
  have q: "fst (ssh_path installed) = Normal ''/opt/tool/bin/ssh''"
    by (simp add: installed_def path_eval)
  show ?thesis
    using m d q ssh_path_deterministic [OF m] by simp
qed

subsection \<open>The diagnostic line\<close>

text \<open>
  Claim C8, as amended. For a missing binary, when the error stream is attached and
  accepts the write, what \<^verbatim>\<open>main\<close> writes to the error stream before it ends with
  \<^verbatim>\<open>SystemExit(1)\<close> is exactly the one record of its \<^verbatim>\<open>print\<close>: the text
  \<^verbatim>\<open>Error: ssh binary not found at\<close>, a blank and the expected path, closed by the one
  newline that \<^verbatim>\<open>print\<close> adds. It is exactly one line whenever the path has no newline
  character in it.
\<close>

theorem missing_binary_one_line:
  assumes "fst (ssh_path w) = Normal binary" and "fst (isfile binary w) = Normal False"
    and "accepts (sys_stderr w)"
  shows "stderr (snd (main w)) = stderr w @ ''Error: ssh binary not found at '' @ binary @ [newline]
       \<and> fst (main w) = Raise (SystemExit 1)
       \<and> (newline \<notin> set binary \<longrightarrow>
            count_list (drop (length (stderr w)) (stderr (snd (main w)))) newline = 1)"
  using main_missing [OF assms] by (simp add: count_list_0_iff)

text \<open>A directory where the binary should be, and an error stream already written to.\<close>

theorem missing_binary_one_line_witness:
  "fst (ssh_path ssh_is_directory) = Normal ''/opt/tool/bin/ssh''
   \<and> fst (isfile ''/opt/tool/bin/ssh'' ssh_is_directory) = Normal False
   \<and> accepts (sys_stderr ssh_is_directory)
   \<and> newline \<notin> set ''/opt/tool/bin/ssh''
   \<and> stderr ssh_is_directory = ''starting'' @ [newline]
   \<and> stderr (snd (main ssh_is_directory))
       = ''starting'' @ [newline] @ ''Error: ssh binary not found at /opt/tool/bin/ssh'' @ [newline]
   \<and> count_list (drop (length (stderr ssh_is_directory)) (stderr (snd (main ssh_is_directory))))
         newline = 1"
proof -
  have p: "fst (ssh_path ssh_is_directory) = Normal ''/opt/tool/bin/ssh''"
    by (simp add: ssh_is_directory_def installed_def path_eval)
  have f: "fst (isfile ''/opt/tool/bin/ssh'' ssh_is_directory) = Normal False"
    by (simp add: ssh_is_directory_def installed_def isfile_eval)
  have a: "accepts (sys_stderr ssh_is_directory)"
    by (simp add: accepts_def ssh_is_directory_def installed_def)
  have e: "stderr ssh_is_directory = ''starting'' @ [newline]"
    by (simp add: ssh_is_directory_def installed_def)
  have n: "newline \<notin> set ''/opt/tool/bin/ssh''" by simp
  show ?thesis
    using p f a e n missing_binary_one_line [OF p f a] by simp
qed

text \<open>
  Claim C8 as it is written asks for exactly one line at every missing binary. A package
  in a directory with a newline in its name gets a diagnostic of two lines; and with the
  error stream on a pipe whose reader is gone the write is refused and no line arrives
  at all.
\<close>

theorem missing_binary_one_line_counterexample:
  "fst (ssh_path newline_in_path) = Normal (''/opt/a'' @ [newline] @ ''b/bin/ssh'')
   \<and> fst (isfile (''/opt/a'' @ [newline] @ ''b/bin/ssh'') newline_in_path) = Normal False
   \<and> accepts (sys_stderr newline_in_path)
   \<and> stderr (snd (main newline_in_path))
       = stderr newline_in_path
         @ ''Error: ssh binary not found at /opt/a'' @ [newline] @ ''b/bin/ssh'' @ [newline]
   \<and> count_list (drop (length (stderr newline_in_path)) (stderr (snd (main newline_in_path))))
         newline = 2
   \<and> fst (ssh_path stderr_broken_pipe) = Normal ''/opt/tool/bin/ssh''
   \<and> fst (isfile ''/opt/tool/bin/ssh'' stderr_broken_pipe) = Normal False
   \<and> fst (main stderr_broken_pipe) = Raise (OSError (Errno 32))
   \<and> stderr (snd (main stderr_broken_pipe)) = stderr stderr_broken_pipe"
proof -
  have p: "fst (ssh_path newline_in_path) = Normal (''/opt/a'' @ [newline] @ ''b/bin/ssh'')"
    by (simp add: newline_in_path_def path_eval)
  have f: "fst (isfile (''/opt/a'' @ [newline] @ ''b/bin/ssh'') newline_in_path) = Normal False"
    by (simp add: newline_in_path_def isfile_eval)
  have a: "accepts (sys_stderr newline_in_path) \<and> stderr newline_in_path = []"
    by (simp add: accepts_def newline_in_path_def)
  have q: "fst (ssh_path stderr_broken_pipe) = Normal ''/opt/tool/bin/ssh''"
    by (simp add: stderr_broken_pipe_def not_installed_def installed_def path_eval)
  have g: "fst (isfile ''/opt/tool/bin/ssh'' stderr_broken_pipe) = Normal False"
    by (simp add: stderr_broken_pipe_def not_installed_def installed_def isfile_eval)
  have b: "sys_stderr stderr_broken_pipe = Attached LineBuffered (Some (Errno 32))"
    by (simp add: stderr_broken_pipe_def)
  have one: "stderr (snd (main newline_in_path))
       = stderr newline_in_path
         @ ''Error: ssh binary not found at /opt/a'' @ [newline] @ ''b/bin/ssh'' @ [newline]"
    using a main_missing [OF p f] by simp
  have two: "count_list (drop (length (stderr newline_in_path))
               (stderr (snd (main newline_in_path)))) newline = 2"
    using a one by simp
  show ?thesis
    using p q f g a one two main_missing_refused [OF q g b] by simp
qed

subsection \<open>A refused request\<close>

text \<open>
  Claim C9. If the binary path is a regular file and the operating system refuses to
  execute it, \<^verbatim>\<open>main\<close> ends with the \<^verbatim>\<open>OSError\<close> that \<^verbatim>\<open>os.execvp\<close> has raised, not
  with \<^verbatim>\<open>SystemExit(1)\<close>, and has written nothing, in particular no diagnostic.
\<close>

theorem exec_failure_propagates:
  assumes "fst (ssh_path w) = Normal binary" and "fst (isfile binary w) = Normal True"
    and "kernel_exec w binary (binary # drop 1 (sys_argv w)) = Some e"
  shows "fst (main w) = Raise (OSError e)
       \<and> fst (main w) \<noteq> Raise (SystemExit 1)
       \<and> stderr (snd (main w)) = stderr w
       \<and> stdout (snd (main w)) = stdout w"
  using main_present [OF assms(1,2)] execv_fails [OF assms(3)]
  by (simp add: execv_frame)

text \<open>A regular file without the permission to execute it.\<close>

theorem exec_failure_propagates_witness:
  "fst (ssh_path site_packages)
     = Normal ''/usr/lib/python3/site-packages/openssh_loee/bin/ssh''
   \<and> fst (isfile ''/usr/lib/python3/site-packages/openssh_loee/bin/ssh'' site_packages)
     = Normal True
   \<and> fst (main site_packages) = Raise (OSError EACCES)
   \<and> stderr (snd (main site_packages)) = ''warning''"
proof -
  have p: "fst (ssh_path site_packages)
             = Normal ''/usr/lib/python3/site-packages/openssh_loee/bin/ssh''"
    by (simp add: site_packages_def path_eval)
  have f: "fst (isfile ''/usr/lib/python3/site-packages/openssh_loee/bin/ssh'' site_packages)
             = Normal True"
    by (simp add: site_packages_def isfile_eval)
  have k: "kernel_exec site_packages ''/usr/lib/python3/site-packages/openssh_loee/bin/ssh''
             (''/usr/lib/python3/site-packages/openssh_loee/bin/ssh''
                # drop 1 (sys_argv site_packages)) = Some EACCES"
    by (simp add: site_packages_def)
  have e: "stderr site_packages = ''warning''"
    by (simp add: site_packages_def)
  show ?thesis
    using p f e exec_failure_propagates [OF p f k] by simp
qed

subsection \<open>What a missing binary leaves unchanged\<close>

text \<open>
  Claim C10, as amended. For a missing binary, when the error stream is attached and
  accepts the write, the state in which \<^verbatim>\<open>main\<close> ends differs from the one it has started
  in by the line on the error stream only: nothing is written to the standard output, and
  the exit status is 1. Whatever the streams do, for a missing binary the file system, the
  environment, the working directory and the standard input are as they were, and no
  request to replace the process has been made.
\<close>

theorem missing_binary_frame:
  assumes "fst (ssh_path w) = Normal binary" and "fst (isfile binary w) = Normal False"
  shows "(accepts (sys_stderr w) \<longrightarrow>
            snd (main w)
              = w\<lparr>stderr := stderr w @ ''Error: ssh binary not found at '' @ binary @ [newline]\<rparr>
          \<and> stdout (snd (main w)) = stdout w
          \<and> exit_status w (main w) = Some 1)
       \<and> fs (snd (main w)) = fs w
       \<and> environ (snd (main w)) = environ w
       \<and> cwd (snd (main w)) = cwd w
       \<and> stdin (snd (main w)) = stdin w
       \<and> exec_calls (snd (main w)) = exec_calls w"
proof -
  let ?line = "''Error: ssh binary not found at '' @ binary"
  have p: "main w = and_then (print_stderr ?line) (\<lambda>_. sys_exit 1) w"
    using main_missing_print [OF assms] .
  have frame: "fs (snd (main w)) = fs w
       \<and> environ (snd (main w)) = environ w
       \<and> cwd (snd (main w)) = cwd w
       \<and> stdin (snd (main w)) = stdin w
       \<and> exec_calls (snd (main w)) = exec_calls w"
    using print_stderr_frame [of ?line w] by (simp add: p and_then_exit)
  have written: "accepts (sys_stderr w) \<longrightarrow>
            snd (main w)
              = w\<lparr>stderr := stderr w @ ''Error: ssh binary not found at '' @ binary @ [newline]\<rparr>
          \<and> stdout (snd (main w)) = stdout w
          \<and> exit_status w (main w) = Some 1"
  proof
    assume a: "accepts (sys_stderr w)"
    show "snd (main w)
              = w\<lparr>stderr := stderr w @ ''Error: ssh binary not found at '' @ binary @ [newline]\<rparr>
          \<and> stdout (snd (main w)) = stdout w
          \<and> exit_status w (main w) = Some 1"
      using main_missing [OF assms a] by (simp add: exit_status_def)
  qed
  show ?thesis using written frame by blast
qed

text \<open>A package location given relative to the working directory, with output already
  written.\<close>

theorem missing_binary_frame_witness:
  "fst (ssh_path relative_package) = Normal ''pkg/bin/ssh''
   \<and> fst (isfile ''pkg/bin/ssh'' relative_package) = Normal False
   \<and> accepts (sys_stderr relative_package)
   \<and> stdout (snd (main relative_package)) = ''output''
   \<and> stdin (snd (main relative_package)) = ''input''
   \<and> exec_calls (snd (main relative_package)) = []
   \<and> stderr (snd (main relative_package)) = ''Error: ssh binary not found at pkg/bin/ssh'' @ [newline]
   \<and> exit_status relative_package (main relative_package) = Some 1"
proof -
  have p: "fst (ssh_path relative_package) = Normal ''pkg/bin/ssh''"
    by (simp add: relative_package_def path_eval)
  have f: "fst (isfile ''pkg/bin/ssh'' relative_package) = Normal False"
    by (simp add: relative_package_def isfile_eval)
  have a: "accepts (sys_stderr relative_package)"
    by (simp add: accepts_def relative_package_def)
  have e: "stdout relative_package = ''output'' \<and> stdin relative_package = ''input''
           \<and> exec_calls relative_package = [] \<and> stderr relative_package = []"
    by (simp add: relative_package_def)
  have s: "stderr (snd (main relative_package))
             = ''Error: ssh binary not found at pkg/bin/ssh'' @ [newline]"
    using e main_missing [OF p f a] by simp
  show ?thesis
    using p f a e s missing_binary_frame [OF p f] by simp
qed

text \<open>
  Claim C10 as it is written has nothing on the standard output at every missing binary.
  A process started with its error stream closed has no \<^verbatim>\<open>sys.stderr\<close>, and \<^verbatim>\<open>print\<close>
  then writes the diagnostic to the standard output.
\<close>

theorem missing_binary_frame_counterexample:
  "fst (ssh_path stderr_closed) = Normal ''/opt/tool/bin/ssh''
   \<and> fst (isfile ''/opt/tool/bin/ssh'' stderr_closed) = Normal False
   \<and> stdout stderr_closed = []
   \<and> stdout (snd (main stderr_closed))
       = ''Error: ssh binary not found at /opt/tool/bin/ssh'' @ [newline]
   \<and> stderr (snd (main stderr_closed)) = stderr stderr_closed"
proof -
  have p: "fst (ssh_path stderr_closed) = Normal ''/opt/tool/bin/ssh''"
    by (simp add: stderr_closed_def not_installed_def installed_def path_eval)
  have f: "fst (isfile ''/opt/tool/bin/ssh'' stderr_closed) = Normal False"
    by (simp add: stderr_closed_def not_installed_def installed_def isfile_eval)
  have a: "sys_stderr stderr_closed = Absent"
    by (simp add: stderr_closed_def)
  have b: "accepts (sys_stdout stderr_closed) \<and> stdout stderr_closed = []"
    by (simp add: accepts_def stderr_closed_def not_installed_def installed_def)
  show ?thesis
    using p f b main_missing_closed [OF p f a] by simp
qed

end
